theory Spec2Isabelle
  imports Complex_Main
begin

section \<open>JavaScript values as the handlers of server.js see them\<close>

text \<open>
  The handlers read properties of \<open>req.body\<close>, the object that \<open>bodyParser.json()\<close>
  parsed from the request. The values modelled are the JSON scalars, \<open>undefined\<close> for an
  absent property, and the members of \<open>Object.prototype\<close>, which a property read on an
  object literal also finds. Arrays and objects as values of the five request properties
  are outside this model.

  A JavaScript number is NaN, an infinity or a finite value; the finite values are taken
  as rationals, of which the doubles are a subset, and the two zeros are one value.
\<close>

datatype jsnum = NaN | PosInf | NegInf | Fin rat

datatype jsval =
    Undefined
  | Null
  | Bool bool
  | Num jsnum
  | Str string
  | Builtin string  \<comment> \<open>the member of \<open>Object.prototype\<close> of that name\<close>

text \<open>
  The built-in conversions on which server.js relies and whose algorithms are part of the
  language, not of the repository: \<open>ToString\<close> on numbers and built-in objects,
  \<open>ToNumber\<close> on strings, \<open>parseFloat\<close> on strings, and the text of the engine's
  TypeError.
\<close>

record builtins =
  js_ToString :: "jsval \<Rightarrow> string"
  js_StringToNumber :: "string \<Rightarrow> jsnum"
  js_parseFloat :: "string \<Rightarrow> jsnum"
  js_TypeError_message :: string  \<comment> \<open>the message of the TypeError for a property read on null or undefined\<close>

text \<open>ToBoolean: what \<open>!x\<close>, \<open>x && y\<close> and \<open>x || y\<close> test.\<close>

fun truthy :: "jsval \<Rightarrow> bool" where
  "truthy Undefined = False"
| "truthy Null = False"
| "truthy (Bool b) = b"
| "truthy (Num n) = (n \<noteq> NaN \<and> n \<noteq> Fin 0)"
| "truthy (Str s) = (s \<noteq> [])"
| "truthy (Builtin k) = True"

definition js_or :: "jsval \<Rightarrow> jsval \<Rightarrow> jsval" where
  "js_or a b = (if truthy a then a else b)"

text \<open>Strict equality \<open>===\<close>: NaN differs from everything, itself included.\<close>

definition strict_eq :: "jsval \<Rightarrow> jsval \<Rightarrow> bool" where
  "strict_eq a b = (a \<noteq> Num NaN \<and> b \<noteq> Num NaN \<and> a = b)"

fun ToString :: "builtins \<Rightarrow> jsval \<Rightarrow> string" where
  "ToString env (Str s) = s"
| "ToString env Undefined = ''undefined''"
| "ToString env Null = ''null''"
| "ToString env (Bool b) = (if b then ''true'' else ''false'')"
| "ToString env v = js_ToString env v"

text \<open>A property key in \<open>obj[key]\<close> is the key converted to a string.\<close>

definition ToPropertyKey :: "builtins \<Rightarrow> jsval \<Rightarrow> string" where
  "ToPropertyKey env v = ToString env v"

fun ToNumber :: "builtins \<Rightarrow> jsval \<Rightarrow> jsnum" where
  "ToNumber env Undefined = NaN"
| "ToNumber env Null = Fin 0"
| "ToNumber env (Bool b) = Fin (if b then 1 else 0)"
| "ToNumber env (Num n) = n"
| "ToNumber env (Str s) = js_StringToNumber env s"
| "ToNumber env (Builtin k) = NaN"

definition isNaN :: "builtins \<Rightarrow> jsval \<Rightarrow> bool" where
  "isNaN env v = (ToNumber env v = NaN)"

text \<open>
  \<open>parseFloat(v)\<close> parses \<open>ToString(v)\<close>. The string of a number parses back to that
  number; the strings of \<open>undefined\<close>, \<open>null\<close>, the booleans and the built-in objects
  do not start with a numeric literal.
\<close>

fun parseFloat :: "builtins \<Rightarrow> jsval \<Rightarrow> jsnum" where
  "parseFloat env (Num n) = n"
| "parseFloat env (Str s) = js_parseFloat env s"
| "parseFloat env v = NaN"

subsection \<open>Property reads on object literals\<close>

text \<open>
  An object literal is the list of its own enumerable properties in the order in which
  \<open>for (k in obj)\<close> visits them. Its prototype is \<open>Object.prototype\<close>, so \<open>obj[k]\<close>
  finds an own property first and an inherited one otherwise. The inherited members are
  not enumerable: \<open>for ... in\<close> visits own keys only, and visits no key at all on a
  member of \<open>Object.prototype\<close>.
\<close>

definition Object_prototype_keys :: "string list" where
  "Object_prototype_keys =
     [''constructor'', ''__defineGetter__'', ''__defineSetter__'', ''hasOwnProperty'',
      ''__lookupGetter__'', ''__lookupSetter__'', ''isPrototypeOf'',
      ''propertyIsEnumerable'', ''toString'', ''valueOf'', ''__proto__'',
      ''toLocaleString'']"

datatype 'v property = Own 'v | Inherited string | Missing

definition get_prop :: "(string \<times> 'v) list \<Rightarrow> string \<Rightarrow> 'v property" where
  "get_prop obj k =
     (case map_of obj k of
        Some v \<Rightarrow> Own v
      | None \<Rightarrow> if k \<in> set Object_prototype_keys then Inherited k else Missing)"

definition own_keys :: "(string \<times> 'v) list \<Rightarrow> string list" where
  "own_keys obj = map fst obj"

section \<open>The difficulty mapper\<close>

text \<open>
  \<^verbatim>\<open>
  function mapDifficultyLevel(difficultyLevel) {
    const difficultyMap = { 'beginner': 'Easy', 'intermediate': 'Medium', 'advanced': 'Hard' };
    return difficultyMap[difficultyLevel] || difficultyLevel;
  }
  \<close>
\<close>

definition difficultyMap :: "(string \<times> string) list" where
  "difficultyMap =
     [(''beginner'', ''Easy''), (''intermediate'', ''Medium''), (''advanced'', ''Hard'')]"

definition mapDifficultyLevel :: "builtins \<Rightarrow> jsval \<Rightarrow> jsval" where
  "mapDifficultyLevel env level =
     js_or (case get_prop difficultyMap (ToPropertyKey env level) of
              Own label \<Rightarrow> Str label
            | Inherited k \<Rightarrow> Builtin k
            | Missing \<Rightarrow> Undefined)
           level"

section \<open>The catalog and the responses\<close>

text \<open>
  \<open>require('./workouts')\<close> is an object literal: workout type to subcategory to array of
  exercise records. The handlers read one field of a record, \<open>kesulitan\<close>; the other
  fields are carried along unread.
\<close>

record 'a exercise =
  kesulitan :: jsval
  details :: 'a

type_synonym 'a subcategories = "(string \<times> 'a exercise list) list"
type_synonym 'a catalog = "(string \<times> 'a subcategories) list"

text \<open>
  \<open>bodyParser.json()\<close> leaves \<open>req.body\<close> an object. These are the properties of it that
  the handlers destructure, \<open>Undefined\<close> when absent.
\<close>

record req_body =
  workoutType :: jsval
  difficultyLevel :: jsval
  age :: jsval
  height :: jsval
  weight :: jsval

datatype ('a, 'd) json_body =
    ErrorJson string  \<comment> \<open>\<open>{success: false, error}\<close>\<close>
  | RecommendationsJson "'a exercise list"  \<comment> \<open>\<open>{success: true, recommendations}\<close>\<close>
  | RelayJson 'd  \<comment> \<open>the upstream body as it came\<close>
  | HealthJson string jsval "string option"  \<comment> \<open>\<open>{expressServer, pythonServer, error?}\<close>\<close>
  | CannotPost string  \<comment> \<open>the framework's answer where no route matches\<close>

record ('a, 'd) response =
  status :: nat
  body :: "('a, 'd) json_body"

definition json :: "('a, 'd) json_body \<Rightarrow> ('a, 'd) response" where
  "json b = \<lparr>status = 200, body = b\<rparr>"

definition errorResponse :: "nat \<Rightarrow> string \<Rightarrow> ('a, 'd) response" where
  "errorResponse st message = \<lparr>status = st, body = ErrorJson message\<rparr>"

section \<open>POST /api/recommend\<close>

text \<open>
  The inner loop \<open>for (const sub in obj) acc = [...acc, ...obj[sub]]\<close>, over the keys still
  to visit. Spreading a value that is not an array throws TypeError: \<open>None\<close>.
\<close>

fun spread_subcategories ::
  "'a subcategories \<Rightarrow> string list \<Rightarrow> 'a exercise list \<Rightarrow> 'a exercise list option" where
  "spread_subcategories obj [] acc = Some acc"
| "spread_subcategories obj (sub # subs) acc =
     (case get_prop obj sub of
        Own xs \<Rightarrow> spread_subcategories obj subs (acc @ xs)
      | Inherited k \<Rightarrow> None
      | Missing \<Rightarrow> None)"

text \<open>
  The outer loop \<open>for (const type in workouts) for (const sub in workouts[type]) ...\<close>.
  \<open>for ... in\<close> over \<open>undefined\<close> or over a member of \<open>Object.prototype\<close> visits nothing.
\<close>

fun spread_types ::
  "'a catalog \<Rightarrow> string list \<Rightarrow> 'a exercise list \<Rightarrow> 'a exercise list option" where
  "spread_types workouts [] acc = Some acc"
| "spread_types workouts (type # types) acc =
     (case get_prop workouts type of
        Own obj \<Rightarrow>
          (case spread_subcategories obj (own_keys obj) acc of
             Some acc' \<Rightarrow> spread_types workouts types acc'
           | None \<Rightarrow> None)
      | Inherited k \<Rightarrow> spread_types workouts types acc
      | Missing \<Rightarrow> spread_types workouts types acc)"

text \<open>
  \<^verbatim>\<open>
  if (difficultyLevel && difficultyLevel !== 'all') {
    const mappedDifficulty = mapDifficultyLevel(difficultyLevel);
    xs = xs.filter(w => w.kesulitan === mappedDifficulty);
  }
  \<close>
\<close>

definition filter_difficulty ::
  "builtins \<Rightarrow> jsval \<Rightarrow> 'a exercise list \<Rightarrow> 'a exercise list" where
  "filter_difficulty env level xs =
     (if truthy level \<and> \<not> strict_eq level (Str ''all'')
      then (let mappedDifficulty = mapDifficultyLevel env level
            in filter (\<lambda>w. strict_eq (kesulitan w) mappedDifficulty) xs)
      else xs)"

text \<open>
  The handler. A TypeError inside the \<open>try\<close> is caught and answered with 500.
  \<open>workouts[workoutType]\<close> is truthy for an own key and for an inherited one alike.
\<close>

definition recommend_handler ::
  "builtins \<Rightarrow> 'a catalog \<Rightarrow> req_body \<Rightarrow> ('a, 'd) response" where
  "recommend_handler env workouts b =
     (if \<not> truthy (workoutType b) then errorResponse 400 ''Workout type is required''
      else if strict_eq (workoutType b) (Str ''semua'') then
        (case spread_types workouts (own_keys workouts) [] of
           Some allWorkouts \<Rightarrow>
             json (RecommendationsJson (filter_difficulty env (difficultyLevel b) allWorkouts))
         | None \<Rightarrow> errorResponse 500 ''Server error while processing recommendation'')
      else
        (case get_prop workouts (ToPropertyKey env (workoutType b)) of
           Own obj \<Rightarrow>
             (case spread_subcategories obj (own_keys obj) [] of
                Some typeWorkouts \<Rightarrow>
                  json (RecommendationsJson
                          (filter_difficulty env (difficultyLevel b) typeWorkouts))
              | None \<Rightarrow> errorResponse 500 ''Server error while processing recommendation'')
         | Inherited k \<Rightarrow>
             json (RecommendationsJson (filter_difficulty env (difficultyLevel b) []))
         | Missing \<Rightarrow> errorResponse 400 ''Invalid workout type''))"

section \<open>The outbound calls\<close>

definition PYTHON_API_URL :: string where
  "PYTHON_API_URL = ''https://backendpy-production.up.railway.app/''"

record payload =
  p_age :: jsnum
  p_height :: jsnum
  p_weight :: jsnum

datatype call = HttpPost string payload | HttpGet string nat

text \<open>
  What reading one property of an upstream body gives: \<open>Nullish\<close> when the body is
  \<open>null\<close> or \<open>undefined\<close>, where the read throws TypeError, and the value read otherwise
  (\<open>Undefined\<close> when the body has no such property). The value read is taken to be a
  scalar.
\<close>

datatype property_read = Nullish | Read jsval

record error_response =
  upstream_status :: nat  \<comment> \<open>\<open>error.response.status\<close>\<close>
  upstream_error :: property_read  \<comment> \<open>\<open>error.response.data.error\<close>\<close>

record axios_error =
  err_code :: "string option"
  err_message :: string
  err_response :: "error_response option"

datatype 'd axios_result = Resolved 'd | Rejected axios_error

text \<open>The record of one run of a handler: the response sent, if any, and the calls made.\<close>

record ('a, 'd) outcome =
  reply :: "('a, 'd) response option"
  calls :: "call list"

section \<open>POST /api/recommendations\<close>

text \<open>
  The \<open>catch\<close> block of the handler. Reading \<open>.error\<close> of a null upstream body throws
  inside the \<open>catch\<close>, and nothing answers the request then: \<open>None\<close>.
\<close>

definition on_post_error :: "builtins \<Rightarrow> axios_error \<Rightarrow> ('a, 'd) response option" where
  "on_post_error env error =
     (if err_code error = Some ''ECONNREFUSED'' \<or> err_code error = Some ''ENOTFOUND''
      then Some (errorResponse 503 ''Python server is not available. Please try again later.'')
      else
        (case err_response error of
           Some r \<Rightarrow>
             (case upstream_error r of
                Read e \<Rightarrow>
                  Some (errorResponse (upstream_status r)
                          (''Python server error: ''
                             @ ToString env (js_or e (Str ''Unknown error''))))
              | Nullish \<Rightarrow> None)
         | None \<Rightarrow> Some (errorResponse 500 ''Failed to process request with Python server'')))"

definition recommendations_handler ::
  "builtins \<Rightarrow> (string \<Rightarrow> payload \<Rightarrow> 'd axios_result) \<Rightarrow> req_body \<Rightarrow> ('a, 'd) outcome" where
  "recommendations_handler env axios_post b =
     (if \<not> truthy (age b) \<or> \<not> truthy (height b) \<or> \<not> truthy (weight b)
         \<or> isNaN env (age b) \<or> isNaN env (height b) \<or> isNaN env (weight b)
      then \<lparr>reply = Some (errorResponse 400 ''Missing required fields or invalid data types''),
            calls = []\<rparr>
      else
        (let url = PYTHON_API_URL @ ''/api/recommend'';
             p = \<lparr>p_age = parseFloat env (age b),
                  p_height = parseFloat env (height b),
                  p_weight = parseFloat env (weight b)\<rparr>
         in \<lparr>reply = (case axios_post url p of
                         Resolved d \<Rightarrow> Some (json (RelayJson d))
                       | Rejected error \<Rightarrow> on_post_error env error),
              calls = [HttpPost url p]\<rparr>))"

section \<open>GET /api/health\<close>

text \<open>
  The read \<open>pythonHealth.data.status\<close> is inside the \<open>try\<close>: its TypeError on a null body
  is caught like a failed call.
\<close>

definition health_handler ::
  "builtins \<Rightarrow> (string \<Rightarrow> nat \<Rightarrow> property_read axios_result) \<Rightarrow> ('a, 'd) outcome" where
  "health_handler env axios_get =
     (let url = PYTHON_API_URL @ ''/api/health'' in
      \<lparr>reply = Some (json
           (case axios_get url 5000 of
              Resolved (Read st) \<Rightarrow> HealthJson ''ok'' (js_or st (Str ''ok'')) None
            | Resolved Nullish \<Rightarrow>
                HealthJson ''ok'' (Str ''offline'') (Some (js_TypeError_message env))
            | Rejected error \<Rightarrow>
                HealthJson ''ok'' (Str ''offline'') (Some (err_message error)))),
       calls = [HttpGet url 5000]\<rparr>)"

section \<open>The router, for POST requests\<close>

text \<open>
  The three POST routes in the order of their registration, matched on the literal path.
  The handler of \<open>/recommend\<close> rewrites \<open>req.url\<close> and hands the same request to the
  router again.
\<close>

function router_handle_post ::
  "builtins \<Rightarrow> 'a catalog \<Rightarrow> (string \<Rightarrow> payload \<Rightarrow> 'd axios_result) \<Rightarrow> string \<Rightarrow> req_body
   \<Rightarrow> ('a, 'd) outcome" where
  "router_handle_post env workouts axios_post url b =
     (if url = ''/api/recommend''
      then \<lparr>reply = Some (recommend_handler env workouts b), calls = []\<rparr>
      else if url = ''/recommend''
      then router_handle_post env workouts axios_post ''/api/recommend'' b
      else if url = ''/api/recommendations''
      then recommendations_handler env axios_post b
      else \<lparr>reply = Some \<lparr>status = 404, body = CannotPost url\<rparr>, calls = []\<rparr>)"
  by pat_completeness auto
termination
  by (relation "measure (\<lambda>(env, workouts, axios_post, url, b).
        if url = ''/recommend'' then 1 else 0)") auto

section \<open>Well-formed objects, and the specification's selector\<close>

text \<open>
  A JavaScript object has each key once; the lists that stand for the catalog and its
  categories are taken to be such.
\<close>

definition wf_object :: "(string \<times> 'v) list \<Rightarrow> bool" where
  "wf_object obj = distinct (own_keys obj)"

definition wf_catalog :: "'a catalog \<Rightarrow> bool" where
  "wf_catalog workouts =
     (wf_object workouts \<and> list_all (\<lambda>entry. wf_object (snd entry)) workouts)"

text \<open>
  The selector in the specification's words, for comparison with the loops of the handler.
  Flattening is the concatenation of the subcategory lists, in the order category,
  subcategory, record. A category selects all records when it is the sentinel and those of
  the category when it is a key of the catalog.
\<close>

definition spec_flatten_category :: "'a subcategories \<Rightarrow> 'a exercise list" where
  "spec_flatten_category obj = concat (map snd obj)"

definition spec_flatten_catalog :: "'a catalog \<Rightarrow> 'a exercise list" where
  "spec_flatten_catalog workouts =
     concat (map (\<lambda>entry. spec_flatten_category (snd entry)) workouts)"

definition spec_selected_records ::
  "builtins \<Rightarrow> 'a catalog \<Rightarrow> jsval \<Rightarrow> 'a exercise list option" where
  "spec_selected_records env workouts category =
     (if category = Str ''semua'' then Some (spec_flatten_catalog workouts)
      else if truthy category
      then map_option spec_flatten_category (map_of workouts (ToPropertyKey env category))
      else None)"

text \<open>
  The guard of \<open>/api/recommendations\<close> on one value: \<open>!v\<close> is false and \<open>isNaN(v)\<close> is
  false.
\<close>

definition passes_validation :: "builtins \<Rightarrow> jsval \<Rightarrow> bool" where
  "passes_validation env v = (truthy v \<and> \<not> isNaN env v)"

section \<open>Sample inputs\<close>

text \<open>
  Built-ins for the samples: no string is numeric. The samples below carry numbers as
  numbers, so none of their results depends on this choice.
\<close>

definition example_env :: builtins where
  "example_env =
     \<lparr>js_ToString = (\<lambda>v. ''[value]''), js_StringToNumber = (\<lambda>s. NaN),
      js_parseFloat = (\<lambda>s. NaN), js_TypeError_message = ''Cannot read properties of null''\<rparr>"

definition example_workouts :: "string catalog" where
  "example_workouts =
     [(''strength'',
        [(''upper'', [\<lparr>kesulitan = Str ''Easy'', details = ''push up''\<rparr>,
                      \<lparr>kesulitan = Str ''Medium'', details = ''pull up''\<rparr>]),
         (''lower'', [\<lparr>kesulitan = Str ''Easy'', details = ''squat''\<rparr>])]),
      (''endurance'',
        [(''cardio'', [\<lparr>kesulitan = Str ''Medium'', details = ''run''\<rparr>])])]"

definition example_body :: "jsval \<Rightarrow> jsval \<Rightarrow> req_body" where
  "example_body wt dl =
     \<lparr>workoutType = wt, difficultyLevel = dl, age = Undefined, height = Undefined,
      weight = Undefined\<rparr>"

definition example_profile :: "jsval \<Rightarrow> jsval \<Rightarrow> jsval \<Rightarrow> req_body" where
  "example_profile a h w =
     \<lparr>workoutType = Undefined, difficultyLevel = Undefined, age = a, height = h, weight = w\<rparr>"

text \<open>An upstream that answers every profile with the profile itself.\<close>

definition example_upstream :: "string \<Rightarrow> payload \<Rightarrow> payload axios_result" where
  "example_upstream url p = Resolved p"

text \<open>The error of axios for an upstream answer of status 500 with the JSON body \<open>null\<close>.\<close>

definition example_null_body_error :: axios_error where
  "example_null_body_error =
     \<lparr>err_code = Some ''ERR_BAD_RESPONSE'',
      err_message = ''Request failed with status code 500'',
      err_response = Some \<lparr>upstream_status = 500, upstream_error = Nullish\<rparr>\<rparr>"

definition example_refused_error :: axios_error where
  "example_refused_error =
     \<lparr>err_code = Some ''ECONNREFUSED'',
      err_message = ''connect ECONNREFUSED'',
      err_response = None\<rparr>"

section \<open>Properties of the difficulty mapper\<close>

lemma mapDifficultyLevel_recognized:
  "mapDifficultyLevel env (Str ''beginner'') = Str ''Easy''"
  "mapDifficultyLevel env (Str ''intermediate'') = Str ''Medium''"
  "mapDifficultyLevel env (Str ''advanced'') = Str ''Hard''"
  by (simp_all add: mapDifficultyLevel_def get_prop_def difficultyMap_def
      ToPropertyKey_def js_or_def)

lemma mapDifficultyLevel_passthrough:
  assumes "ToPropertyKey env v \<notin> set (own_keys difficultyMap)"
    and "ToPropertyKey env v \<notin> set Object_prototype_keys"
  shows "mapDifficultyLevel env v = v"
proof -
  have "map_of difficultyMap (ToPropertyKey env v) = None"
    using assms(1) by (simp add: own_keys_def map_of_eq_None_iff)
  then show ?thesis
    using assms(2) by (simp add: mapDifficultyLevel_def get_prop_def js_or_def)
qed

lemma mapDifficultyLevel_truthy:
  "truthy v \<Longrightarrow> truthy (mapDifficultyLevel env v)"
  by (auto simp: mapDifficultyLevel_def js_or_def split: property.splits)

text \<open>
  C2. The mapper returns the configured label for each of the three recognised aliases,
  and is meant to return every other input unchanged. It does not for an input that names
  a member of \<open>Object.prototype\<close>: the read \<open>difficultyMap['constructor']\<close> finds the
  inherited \<open>Object\<close> function, which is truthy, so the mapper returns that function and
  not the string it was given.
\<close>

theorem mapDifficultyLevel_inherited_key:
  "mapDifficultyLevel env (Str ''constructor'') = Builtin ''constructor''
   \<and> mapDifficultyLevel env (Str ''constructor'') \<noteq> Str ''constructor''"
  by (simp add: mapDifficultyLevel_def get_prop_def difficultyMap_def
      Object_prototype_keys_def ToPropertyKey_def js_or_def)

section \<open>The loops of the selector\<close>

lemma get_prop_own: "distinct (map fst obj) \<Longrightarrow> (k, v) \<in> set obj \<Longrightarrow> get_prop obj k = Own v"
  by (simp add: get_prop_def)

lemma spread_subcategories_suffix:
  assumes "distinct (map fst obj)" and "set ys \<subseteq> set obj"
  shows "spread_subcategories obj (map fst ys) acc = Some (acc @ concat (map snd ys))"
  using assms(2)
proof (induction ys arbitrary: acc)
  case Nil
  then show ?case by simp
next
  case (Cons y ys)
  obtain k v where y: "y = (k, v)" by (cases y)
  with Cons.prems have "(k, v) \<in> set obj" by simp
  then have "get_prop obj k = Own v" using assms(1) by (rule get_prop_own[rotated])
  with Cons y show ?case by simp
qed

lemma spread_subcategories_all:
  "wf_object obj \<Longrightarrow> spread_subcategories obj (own_keys obj) acc = Some (acc @ spec_flatten_category obj)"
  unfolding wf_object_def own_keys_def spec_flatten_category_def
  by (rule spread_subcategories_suffix) simp_all

lemma spread_types_suffix:
  assumes "distinct (map fst ws)" and "list_all (\<lambda>entry. wf_object (snd entry)) ws" and "set ys \<subseteq> set ws"
  shows "spread_types ws (map fst ys) acc = Some (acc @ concat (map (\<lambda>entry. spec_flatten_category (snd entry)) ys))"
  using assms(3)
proof (induction ys arbitrary: acc)
  case Nil
  then show ?case by simp
next
  case (Cons y ys)
  obtain k obj where y: "y = (k, obj)" by (cases y)
  with Cons.prems have mem: "(k, obj) \<in> set ws" by simp
  then have g: "get_prop ws k = Own obj" using assms(1) by (rule get_prop_own[rotated])
  from mem assms(2) have "wf_object obj" by (auto simp: list_all_iff)
  then have "spread_subcategories obj (own_keys obj) acc = Some (acc @ spec_flatten_category obj)"
    by (rule spread_subcategories_all)
  with Cons y g show ?case by simp
qed

lemma spread_types_all:
  assumes "wf_catalog ws"
  shows "spread_types ws (own_keys ws) acc = Some (acc @ spec_flatten_catalog ws)"
proof -
  from assms have d: "distinct (map fst ws)"
    by (simp add: wf_catalog_def wf_object_def own_keys_def)
  from assms have a: "list_all (\<lambda>entry. wf_object (snd entry)) ws"
    by (simp add: wf_catalog_def)
  show ?thesis
    unfolding own_keys_def spec_flatten_catalog_def
    using d a by (rule spread_types_suffix) simp
qed

lemma wf_example_workouts: "wf_catalog example_workouts"
  by (simp add: wf_catalog_def wf_object_def own_keys_def example_workouts_def)

lemma strict_eq_truthy: "truthy b \<Longrightarrow> strict_eq a b = (a = b)"
  by (auto simp: strict_eq_def)

lemma filter_difficulty_off:
  "\<not> truthy dl \<or> dl = Str ''all'' \<Longrightarrow> filter_difficulty env dl xs = xs"
  by (auto simp: filter_difficulty_def strict_eq_def)

lemma filter_difficulty_on:
  assumes "truthy dl" and "dl \<noteq> Str ''all''"
  shows "filter_difficulty env dl xs = filter (\<lambda>w. kesulitan w = mapDifficultyLevel env dl) xs"
proof -
  have "truthy (mapDifficultyLevel env dl)"
    using assms(1) by (rule mapDifficultyLevel_truthy)
  then have eq: "strict_eq x (mapDifficultyLevel env dl) = (x = mapDifficultyLevel env dl)" for x
    by (rule strict_eq_truthy)
  have "\<not> strict_eq dl (Str ''all'')"
    using assms(2) by (simp add: strict_eq_def)
  then show ?thesis
    using assms(1) by (simp add: filter_difficulty_def eq)
qed

lemma length_flatten_category:
  "length (spec_flatten_category obj) = sum_list (map (\<lambda>sub. length (snd sub)) obj)"
  by (simp add: spec_flatten_category_def length_concat comp_def)

lemma length_flatten_catalog:
  "length (spec_flatten_catalog ws)
     = sum_list (map (\<lambda>entry. sum_list (map (\<lambda>sub. length (snd sub)) (snd entry))) ws)"
  by (simp add: spec_flatten_catalog_def length_concat comp_def length_flatten_category)

section \<open>Properties of POST /api/recommend\<close>

text \<open>
  C1. A request with \<open>workoutType\<close> equal to \<open>'semua'\<close> and no effective difficulty
  filter (\<open>difficultyLevel\<close> falsy or equal to \<open>'all'\<close>) is answered with the concatenation
  of every subcategory list of every category, in the order category, subcategory,
  record; its length is the sum of the lengths of all subcategory lists.
\<close>

theorem recommend_semua_flattens_catalog:
  assumes "wf_catalog workouts"
    and "workoutType b = Str ''semua''"
    and "\<not> truthy (difficultyLevel b) \<or> difficultyLevel b = Str ''all''"
  shows "recommend_handler env workouts b = json (RecommendationsJson (spec_flatten_catalog workouts))
     \<and> length (spec_flatten_catalog workouts)
         = sum_list (map (\<lambda>entry. sum_list (map (\<lambda>sub. length (snd sub)) (snd entry)))
             workouts)"
proof -
  have "spread_types workouts (own_keys workouts) [] = Some (spec_flatten_catalog workouts)"
    using spread_types_all [OF assms(1), of "[]"] by simp
  moreover have "filter_difficulty env (difficultyLevel b) (spec_flatten_catalog workouts)
      = spec_flatten_catalog workouts"
    using assms(3) by (rule filter_difficulty_off)
  ultimately have "recommend_handler env workouts b
      = json (RecommendationsJson (spec_flatten_catalog workouts))"
    using assms(2) by (simp add: recommend_handler_def strict_eq_def)
  then show ?thesis
    by (simp add: length_flatten_catalog)
qed

theorem recommend_semua_flattens_catalog_witness:
  "recommend_handler example_env example_workouts (example_body (Str ''semua'') Undefined)
     = (json (RecommendationsJson
          [\<lparr>kesulitan = Str ''Easy'', details = ''push up''\<rparr>,
           \<lparr>kesulitan = Str ''Medium'', details = ''pull up''\<rparr>,
           \<lparr>kesulitan = Str ''Easy'', details = ''squat''\<rparr>,
           \<lparr>kesulitan = Str ''Medium'', details = ''run''\<rparr>]) :: (string, unit) response)
   \<and> length (spec_flatten_catalog example_workouts) = 4"
proof -
  have b: "workoutType (example_body (Str ''semua'') Undefined) = Str ''semua''"
    and d: "\<not> truthy (difficultyLevel (example_body (Str ''semua'') Undefined))
        \<or> difficultyLevel (example_body (Str ''semua'') Undefined) = Str ''all''"
    by (simp_all add: example_body_def)
  show ?thesis
    using recommend_semua_flattens_catalog [OF wf_example_workouts b d, of example_env]
    by (simp add: spec_flatten_catalog_def spec_flatten_category_def example_workouts_def)
qed

lemma recommend_handler_selected:
  assumes "wf_catalog workouts"
    and "spec_selected_records env workouts (workoutType b) = Some xs"
  shows "recommend_handler env workouts b
     = json (RecommendationsJson (filter_difficulty env (difficultyLevel b) xs))"
proof (cases "workoutType b = Str ''semua''")
  case True
  then have "xs = spec_flatten_catalog workouts"
    using assms(2) by (simp add: spec_selected_records_def)
  moreover have "spread_types workouts (own_keys workouts) [] = Some (spec_flatten_catalog workouts)"
    using spread_types_all [OF assms(1), of "[]"] by simp
  ultimately show ?thesis
    using True by (simp add: recommend_handler_def strict_eq_def)
next
  case False
  with assms(2) obtain obj where t: "truthy (workoutType b)"
    and m: "map_of workouts (ToPropertyKey env (workoutType b)) = Some obj"
    and xs: "xs = spec_flatten_category obj"
    by (auto simp: spec_selected_records_def split: if_splits)
  from m have mem: "(ToPropertyKey env (workoutType b), obj) \<in> set workouts"
    by (rule map_of_SomeD)
  with assms(1) have "wf_object obj"
    by (auto simp: wf_catalog_def list_all_iff)
  then have "spread_subcategories obj (own_keys obj) [] = Some (spec_flatten_category obj)"
    using spread_subcategories_all [of obj "[]"] by simp
  moreover have "get_prop workouts (ToPropertyKey env (workoutType b)) = Own obj"
    using m by (simp add: get_prop_def)
  ultimately show ?thesis
    using False t xs by (simp add: recommend_handler_def strict_eq_def)
qed

text \<open>
  C3, as the code has it. For a request that selects records (the sentinel \<open>'semua'\<close> or a
  key of the catalog) and carries a difficulty alias that is truthy (present and not the
  empty string, 0, \<open>false\<close> or \<open>null\<close>) and different from \<open>'all'\<close>, the response is a
  success whose sequence is exactly the selected records whose \<open>kesulitan\<close> equals the
  mapped alias, in order; when no record matches, it is a success with the empty sequence.
\<close>

theorem recommend_filter_exact:
  assumes "wf_catalog workouts"
    and "spec_selected_records env workouts (workoutType b) = Some xs"
    and "truthy (difficultyLevel b)"
    and "difficultyLevel b \<noteq> Str ''all''"
  shows "(recommend_handler env workouts b :: ('a, 'd) response)
       = json (RecommendationsJson
           (filter (\<lambda>w. kesulitan w = mapDifficultyLevel env (difficultyLevel b)) xs))
     \<and> ((\<forall>w \<in> set xs. kesulitan w \<noteq> mapDifficultyLevel env (difficultyLevel b))
          \<longrightarrow> (recommend_handler env workouts b :: ('a, 'd) response)
                = json (RecommendationsJson []))"
proof -
  have "recommend_handler env workouts b
      = json (RecommendationsJson (filter_difficulty env (difficultyLevel b) xs))"
    using assms(1,2) by (rule recommend_handler_selected)
  then have r: "recommend_handler env workouts b
      = json (RecommendationsJson
          (filter (\<lambda>w. kesulitan w = mapDifficultyLevel env (difficultyLevel b)) xs))"
    using assms(3,4) by (simp add: filter_difficulty_on)
  show ?thesis
  proof (intro conjI impI)
    show "recommend_handler env workouts b
      = json (RecommendationsJson
          (filter (\<lambda>w. kesulitan w = mapDifficultyLevel env (difficultyLevel b)) xs))"
      by (rule r)
  next
    assume "\<forall>w \<in> set xs. kesulitan w \<noteq> mapDifficultyLevel env (difficultyLevel b)"
    then have "filter (\<lambda>w. kesulitan w = mapDifficultyLevel env (difficultyLevel b)) xs = []"
      by (simp add: filter_empty_conv)
    with r show "recommend_handler env workouts b = json (RecommendationsJson [])"
      by simp
  qed
qed

lemma selected_example_strength:
  "spec_selected_records example_env example_workouts (Str ''strength'')
     = Some [\<lparr>kesulitan = Str ''Easy'', details = ''push up''\<rparr>,
           \<lparr>kesulitan = Str ''Medium'', details = ''pull up''\<rparr>,
           \<lparr>kesulitan = Str ''Easy'', details = ''squat''\<rparr>]"
  by (simp add: spec_selected_records_def example_workouts_def ToPropertyKey_def spec_flatten_category_def)

theorem recommend_filter_exact_witness:
  "recommend_handler example_env example_workouts (example_body (Str ''strength'') (Str ''beginner''))
     = (json (RecommendationsJson
          [\<lparr>kesulitan = Str ''Easy'', details = ''push up''\<rparr>,
           \<lparr>kesulitan = Str ''Easy'', details = ''squat''\<rparr>]) :: (string, unit) response)
   \<and> recommend_handler example_env example_workouts (example_body (Str ''strength'') (Str ''advanced''))
     = (json (RecommendationsJson []) :: (string, unit) response)"
proof -
  have s1: "spec_selected_records example_env example_workouts
      (workoutType (example_body (Str ''strength'') (Str ''beginner'')))
     = Some [\<lparr>kesulitan = Str ''Easy'', details = ''push up''\<rparr>,
           \<lparr>kesulitan = Str ''Medium'', details = ''pull up''\<rparr>,
           \<lparr>kesulitan = Str ''Easy'', details = ''squat''\<rparr>]"
    and s2: "spec_selected_records example_env example_workouts
      (workoutType (example_body (Str ''strength'') (Str ''advanced'')))
     = Some [\<lparr>kesulitan = Str ''Easy'', details = ''push up''\<rparr>,
           \<lparr>kesulitan = Str ''Medium'', details = ''pull up''\<rparr>,
           \<lparr>kesulitan = Str ''Easy'', details = ''squat''\<rparr>]"
    by (simp_all add: example_body_def selected_example_strength)
  have t1: "truthy (difficultyLevel (example_body (Str ''strength'') (Str ''beginner'')))"
    and n1: "difficultyLevel (example_body (Str ''strength'') (Str ''beginner'')) \<noteq> Str ''all''"
    and t2: "truthy (difficultyLevel (example_body (Str ''strength'') (Str ''advanced'')))"
    and n2: "difficultyLevel (example_body (Str ''strength'') (Str ''advanced'')) \<noteq> Str ''all''"
    by (simp_all add: example_body_def)
  note a = recommend_filter_exact [where ?'d = unit, OF wf_example_workouts s1 t1 n1]
  note b = recommend_filter_exact [where ?'d = unit, OF wf_example_workouts s2 t2 n2]
  from a have "recommend_handler example_env example_workouts (example_body (Str ''strength'') (Str ''beginner''))
     = (json (RecommendationsJson
          [\<lparr>kesulitan = Str ''Easy'', details = ''push up''\<rparr>,
           \<lparr>kesulitan = Str ''Easy'', details = ''squat''\<rparr>]) :: (string, unit) response)"
    by (simp add: example_body_def mapDifficultyLevel_recognized)
  moreover from b have "recommend_handler example_env example_workouts (example_body (Str ''strength'') (Str ''advanced''))
     = (json (RecommendationsJson []) :: (string, unit) response)"
    by (simp add: example_body_def mapDifficultyLevel_recognized)
  ultimately show ?thesis by simp
qed

text \<open>
  The claim C3 as written fails: the empty string is a present alias different from
  \<open>'all'\<close>, it maps to itself, and no record of the category has it as its label; yet the
  guard \<open>difficultyLevel && ...\<close> skips the filter and every record of the category is
  returned.
\<close>

theorem recommend_empty_alias_counterexample:
  "difficultyLevel (example_body (Str ''strength'') (Str [])) \<noteq> Undefined
   \<and> difficultyLevel (example_body (Str ''strength'') (Str [])) \<noteq> Str ''all''
   \<and> mapDifficultyLevel example_env (difficultyLevel (example_body (Str ''strength'') (Str [])))
       = Str []
   \<and> (recommend_handler example_env example_workouts
         (example_body (Str ''strength'') (Str [])) :: (string, unit) response)
       = \<lparr>status = 200,
          body = RecommendationsJson
            [\<lparr>kesulitan = Str ''Easy'', details = ''push up''\<rparr>,
             \<lparr>kesulitan = Str ''Medium'', details = ''pull up''\<rparr>,
             \<lparr>kesulitan = Str ''Easy'', details = ''squat''\<rparr>]\<rparr>"
  by (simp add: example_body_def mapDifficultyLevel_def get_prop_def difficultyMap_def
      Object_prototype_keys_def ToPropertyKey_def js_or_def recommend_handler_def
      strict_eq_def example_workouts_def own_keys_def filter_difficulty_def json_def)

lemma recommend_handler_unknown_key:
  assumes "truthy (workoutType b)"
    and "workoutType b \<noteq> Str ''semua''"
    and "ToPropertyKey env (workoutType b) \<notin> set (own_keys workouts)"
    and "ToPropertyKey env (workoutType b) \<notin> set Object_prototype_keys"
  shows "recommend_handler env workouts b = errorResponse 400 ''Invalid workout type''"
proof -
  have "map_of workouts (ToPropertyKey env (workoutType b)) = None"
    using assms(3) by (simp add: own_keys_def map_of_eq_None_iff)
  then have "get_prop workouts (ToPropertyKey env (workoutType b)) = Missing"
    using assms(4) by (simp add: get_prop_def)
  then show ?thesis
    using assms(1,2) by (simp add: recommend_handler_def strict_eq_def)
qed

text \<open>
  C6. A category that is neither \<open>'semua'\<close> nor a key of the catalog is meant to be answered
  with 400 and \<open>'Invalid workout type'\<close>. The handler tests \<open>workouts[workoutType]\<close> for
  truthiness, and that read also finds the members of \<open>Object.prototype\<close>:
  \<open>'constructor'\<close> is no key of the sample catalog, yet the request is answered with
  status 200 and an empty list of recommendations. No outbound call is made.
\<close>

theorem recommend_inherited_key_accepted:
  "''constructor'' \<notin> set (own_keys example_workouts)
   \<and> router_handle_post example_env example_workouts axios_post ''/api/recommend''
         (example_body (Str ''constructor'') Undefined)
       = \<lparr>reply = Some \<lparr>status = 200, body = RecommendationsJson []\<rparr>, calls = []\<rparr>"
  by (simp add: recommend_handler_def example_body_def example_workouts_def own_keys_def
      strict_eq_def get_prop_def ToPropertyKey_def Object_prototype_keys_def
      filter_difficulty_def json_def)

text \<open>
  C7. A request to \<open>/api/recommend\<close> whose \<open>workoutType\<close> is absent or the empty string is
  answered with status 400, \<open>success: false\<close> and the message \<open>'Workout type is required'\<close>,
  whatever the catalog holds.
\<close>

theorem recommend_missing_workoutType:
  assumes "workoutType b = Undefined \<or> workoutType b = Str []"
  shows "(recommend_handler env workouts b :: ('a, 'd) response)
       = \<lparr>status = 400, body = ErrorJson ''Workout type is required''\<rparr>
     \<and> (recommend_handler env workouts b :: ('a, 'd) response)
       = recommend_handler env workouts' b"
  using assms by (auto simp: recommend_handler_def errorResponse_def)

theorem recommend_missing_workoutType_witness:
  "recommend_handler example_env example_workouts (example_body Undefined (Str ''beginner''))
     = (\<lparr>status = 400, body = ErrorJson ''Workout type is required''\<rparr> :: (string, unit) response)
   \<and> recommend_handler example_env example_workouts (example_body (Str []) Undefined)
     = (\<lparr>status = 400, body = ErrorJson ''Workout type is required''\<rparr> :: (string, unit) response)"
proof -
  have a: "workoutType (example_body Undefined (Str ''beginner'')) = Undefined
      \<or> workoutType (example_body Undefined (Str ''beginner'')) = Str []"
    and b: "workoutType (example_body (Str []) Undefined) = Undefined
      \<or> workoutType (example_body (Str []) Undefined) = Str []"
    by (simp_all add: example_body_def)
  show ?thesis
    using recommend_missing_workoutType [OF a, of example_env example_workouts example_workouts]
      recommend_missing_workoutType [OF b, of example_env example_workouts example_workouts]
    by simp
qed

text \<open>
  C9. For every request body, \<open>POST /recommend\<close> gives the response, status and body, that
  \<open>POST /api/recommend\<close> gives: the one the handler of \<open>/api/recommend\<close> computes.
\<close>

theorem legacy_route_same_response:
  "router_handle_post env workouts axios_post ''/recommend'' b
     = router_handle_post env workouts axios_post ''/api/recommend'' b
   \<and> router_handle_post env workouts axios_post ''/recommend'' b
     = \<lparr>reply = Some (recommend_handler env workouts b), calls = []\<rparr>"
  by simp

section \<open>Properties of POST /api/recommendations\<close>

lemma recommendations_handler_rejected:
  assumes "\<not> passes_validation env (age b) \<or> \<not> passes_validation env (height b)
      \<or> \<not> passes_validation env (weight b)"
  shows "recommendations_handler env axios_post b
     = \<lparr>reply = Some \<lparr>status = 400,
                        body = ErrorJson ''Missing required fields or invalid data types''\<rparr>,
        calls = []\<rparr>"
proof -
  have "\<not> truthy (age b) \<or> \<not> truthy (height b) \<or> \<not> truthy (weight b)
      \<or> isNaN env (age b) \<or> isNaN env (height b) \<or> isNaN env (weight b)"
    using assms by (auto simp: passes_validation_def)
  then show ?thesis
    unfolding recommendations_handler_def errorResponse_def by (rule if_P)
qed

lemma recommendations_handler_forwarded:
  assumes "passes_validation env (age b)" and "passes_validation env (height b)"
    and "passes_validation env (weight b)"
  shows "calls (recommendations_handler env axios_post b)
     = [HttpPost (PYTHON_API_URL @ ''/api/recommend'')
          \<lparr>p_age = parseFloat env (age b), p_height = parseFloat env (height b),
           p_weight = parseFloat env (weight b)\<rparr>]"
  using assms by (simp add: recommendations_handler_def passes_validation_def Let_def)

lemma recommendations_true_forwarded:
  "calls (recommendations_handler env axios_post
            (example_profile (Bool True) (Num (Fin 170)) (Num (Fin 65))))
     = [HttpPost (PYTHON_API_URL @ ''/api/recommend'')
          \<lparr>p_age = NaN, p_height = Fin 170, p_weight = Fin 65\<rparr>]"
  by (simp add: recommendations_handler_def example_profile_def isNaN_def Let_def)

text \<open>
  C4, as the code has it. If any of \<open>age\<close>, \<open>height\<close>, \<open>weight\<close> is absent, is otherwise
  falsy (null, false, 0 or the empty string) or is NaN under the conversion that \<open>isNaN\<close>
  applies, the request is answered with 400 and no outbound call is made. If all three
  are truthy, are not NaN under that conversion and are parsed to a number by
  \<open>parseFloat\<close>, exactly one outbound call is issued: a POST to the fixed URL carrying
  the three parsed numbers. Nothing is said of a value that passes the guard and that
  \<open>parseFloat\<close> does not parse, such as \<open>true\<close>.
\<close>

theorem recommendations_validation:
  "((v \<in> {age b, height b, weight b} \<and> (v = Undefined \<or> \<not> truthy v \<or> isNaN env v))
      \<longrightarrow> (recommendations_handler env axios_post b :: ('a, 'd) outcome)
           = \<lparr>reply = Some \<lparr>status = 400,
                  body = ErrorJson ''Missing required fields or invalid data types''\<rparr>,
              calls = []\<rparr>)
   \<and> ((passes_validation env (age b) \<and> passes_validation env (height b)
        \<and> passes_validation env (weight b)
        \<and> parseFloat env (age b) \<noteq> NaN \<and> parseFloat env (height b) \<noteq> NaN
        \<and> parseFloat env (weight b) \<noteq> NaN)
      \<longrightarrow> (\<exists>p. calls (recommendations_handler env axios_post b :: ('a, 'd) outcome)
                 = [HttpPost (PYTHON_API_URL @ ''/api/recommend'') p]
             \<and> p_age p = parseFloat env (age b) \<and> p_age p \<noteq> NaN
             \<and> p_height p = parseFloat env (height b) \<and> p_height p \<noteq> NaN
             \<and> p_weight p = parseFloat env (weight b) \<and> p_weight p \<noteq> NaN))"
proof (intro conjI impI)
  assume a: "v \<in> {age b, height b, weight b} \<and> (v = Undefined \<or> \<not> truthy v \<or> isNaN env v)"
  then have "\<not> passes_validation env v"
    by (auto simp: passes_validation_def)
  with a have "\<not> passes_validation env (age b) \<or> \<not> passes_validation env (height b)
      \<or> \<not> passes_validation env (weight b)"
    by auto
  then show "(recommendations_handler env axios_post b :: ('a, 'd) outcome)
           = \<lparr>reply = Some \<lparr>status = 400,
                  body = ErrorJson ''Missing required fields or invalid data types''\<rparr>,
              calls = []\<rparr>"
    by (rule recommendations_handler_rejected)
next
  assume h: "passes_validation env (age b) \<and> passes_validation env (height b)
        \<and> passes_validation env (weight b)
        \<and> parseFloat env (age b) \<noteq> NaN \<and> parseFloat env (height b) \<noteq> NaN
        \<and> parseFloat env (weight b) \<noteq> NaN"
  then have "calls (recommendations_handler env axios_post b :: ('a, 'd) outcome)
           = [HttpPost (PYTHON_API_URL @ ''/api/recommend'')
                \<lparr>p_age = parseFloat env (age b), p_height = parseFloat env (height b),
                 p_weight = parseFloat env (weight b)\<rparr>]"
    by (simp add: recommendations_handler_forwarded)
  with h show "\<exists>p. calls (recommendations_handler env axios_post b :: ('a, 'd) outcome)
                 = [HttpPost (PYTHON_API_URL @ ''/api/recommend'') p]
             \<and> p_age p = parseFloat env (age b) \<and> p_age p \<noteq> NaN
             \<and> p_height p = parseFloat env (height b) \<and> p_height p \<noteq> NaN
             \<and> p_weight p = parseFloat env (weight b) \<and> p_weight p \<noteq> NaN"
    by simp
qed

theorem recommendations_validation_witness:
  "(recommendations_handler example_env example_upstream
       (example_profile (Str ''abc'') (Num (Fin 170)) (Num (Fin 65)))
         :: (string, payload) outcome)
     = \<lparr>reply = Some \<lparr>status = 400,
            body = ErrorJson ''Missing required fields or invalid data types''\<rparr>,
        calls = []\<rparr>
   \<and> calls (recommendations_handler example_env example_upstream
       (example_profile (Num (Fin 25)) (Num (Fin 170)) (Num (Fin 65)))
         :: (string, payload) outcome)
     = [HttpPost ''https://backendpy-production.up.railway.app//api/recommend''
          \<lparr>p_age = Fin 25, p_height = Fin 170, p_weight = Fin 65\<rparr>]"
proof -
  note a = recommendations_validation [where ?'a = string, of "Str ''abc''"
      "example_profile (Str ''abc'') (Num (Fin 170)) (Num (Fin 65))" example_env example_upstream]
  note b = recommendations_validation [where ?'a = string, of Undefined
      "example_profile (Num (Fin 25)) (Num (Fin 170)) (Num (Fin 65))" example_env example_upstream]
  have "(recommendations_handler example_env example_upstream
       (example_profile (Str ''abc'') (Num (Fin 170)) (Num (Fin 65)))
         :: (string, payload) outcome)
     = \<lparr>reply = Some \<lparr>status = 400,
            body = ErrorJson ''Missing required fields or invalid data types''\<rparr>,
        calls = []\<rparr>"
    using a by (simp add: example_profile_def example_env_def isNaN_def)
  moreover from b obtain p where
    "calls (recommendations_handler example_env example_upstream
       (example_profile (Num (Fin 25)) (Num (Fin 170)) (Num (Fin 65)))
         :: (string, payload) outcome)
     = [HttpPost (PYTHON_API_URL @ ''/api/recommend'') p]"
    and "p_age p = Fin 25" and "p_height p = Fin 170" and "p_weight p = Fin 65"
    by (auto simp: example_profile_def passes_validation_def isNaN_def)
  then have "calls (recommendations_handler example_env example_upstream
       (example_profile (Num (Fin 25)) (Num (Fin 170)) (Num (Fin 65)))
         :: (string, payload) outcome)
     = [HttpPost ''https://backendpy-production.up.railway.app//api/recommend''
          \<lparr>p_age = Fin 25, p_height = Fin 170, p_weight = Fin 65\<rparr>]"
    by (cases p) (simp add: PYTHON_API_URL_def)
  ultimately show ?thesis by simp
qed

text \<open>
  The claim C4 as written fails: with \<open>age\<close> the number 0, all three values are present and
  parseable as numbers, yet the explicit guard \<open>!age\<close> answers the request with 400 and no
  call is issued.
\<close>

theorem recommendations_zero_age_counterexample:
  "age (example_profile (Num (Fin 0)) (Num (Fin 170)) (Num (Fin 65))) \<noteq> Undefined
   \<and> \<not> isNaN example_env (age (example_profile (Num (Fin 0)) (Num (Fin 170)) (Num (Fin 65))))
   \<and> height (example_profile (Num (Fin 0)) (Num (Fin 170)) (Num (Fin 65))) \<noteq> Undefined
   \<and> \<not> isNaN example_env (height (example_profile (Num (Fin 0)) (Num (Fin 170)) (Num (Fin 65))))
   \<and> weight (example_profile (Num (Fin 0)) (Num (Fin 170)) (Num (Fin 65))) \<noteq> Undefined
   \<and> \<not> isNaN example_env (weight (example_profile (Num (Fin 0)) (Num (Fin 170)) (Num (Fin 65))))
   \<and> (recommendations_handler example_env example_upstream
        (example_profile (Num (Fin 0)) (Num (Fin 170)) (Num (Fin 65)))
          :: (string, payload) outcome)
      = \<lparr>reply = Some \<lparr>status = 400,
             body = ErrorJson ''Missing required fields or invalid data types''\<rparr>,
         calls = []\<rparr>"
  by (simp add: example_profile_def isNaN_def recommendations_handler_def errorResponse_def)

text \<open>
  C10. The validation of \<open>/api/recommendations\<close> rejects every falsy value: a request in
  which \<open>age\<close>, \<open>height\<close> or \<open>weight\<close> is falsy is answered with 400 and no outbound call
  is made. The number 0 is such a value, although it is present and is a number.
\<close>

theorem recommendations_rejects_falsy:
  assumes "\<not> truthy (age b) \<or> \<not> truthy (height b) \<or> \<not> truthy (weight b)"
  shows "(recommendations_handler env axios_post b :: ('a, 'd) outcome)
       = \<lparr>reply = Some \<lparr>status = 400,
              body = ErrorJson ''Missing required fields or invalid data types''\<rparr>,
          calls = []\<rparr>
     \<and> \<not> truthy (Num (Fin 0)) \<and> Num (Fin 0) \<noteq> Undefined \<and> \<not> isNaN env (Num (Fin 0))"
proof -
  have "\<not> passes_validation env (age b) \<or> \<not> passes_validation env (height b)
      \<or> \<not> passes_validation env (weight b)"
    using assms by (auto simp: passes_validation_def)
  then have "(recommendations_handler env axios_post b :: ('a, 'd) outcome)
       = \<lparr>reply = Some \<lparr>status = 400,
              body = ErrorJson ''Missing required fields or invalid data types''\<rparr>,
          calls = []\<rparr>"
    by (rule recommendations_handler_rejected)
  then show ?thesis by (simp add: isNaN_def)
qed

theorem recommendations_rejects_falsy_witness:
  "(recommendations_handler example_env example_upstream
       (example_profile (Num (Fin 25)) (Num (Fin 0)) (Num (Fin 65)))
         :: (string, payload) outcome)
     = \<lparr>reply = Some \<lparr>status = 400,
            body = ErrorJson ''Missing required fields or invalid data types''\<rparr>,
        calls = []\<rparr>"
proof -
  have "\<not> truthy (age (example_profile (Num (Fin 25)) (Num (Fin 0)) (Num (Fin 65))))
      \<or> \<not> truthy (height (example_profile (Num (Fin 25)) (Num (Fin 0)) (Num (Fin 65))))
      \<or> \<not> truthy (weight (example_profile (Num (Fin 25)) (Num (Fin 0)) (Num (Fin 65))))"
    by (simp add: example_profile_def)
  from recommendations_rejects_falsy [where ?'a = string, OF this, of example_env example_upstream]
  show ?thesis by simp
qed

lemma recommendations_handler_relay:
  assumes "passes_validation env (age b)" and "passes_validation env (height b)"
    and "passes_validation env (weight b)"
    and "axios_post (PYTHON_API_URL @ ''/api/recommend'')
           \<lparr>p_age = parseFloat env (age b), p_height = parseFloat env (height b),
            p_weight = parseFloat env (weight b)\<rparr> = Resolved d"
  shows "reply (recommendations_handler env axios_post b)
     = Some \<lparr>status = 200, body = RelayJson d\<rparr>"
  using assms by (simp add: recommendations_handler_def passes_validation_def Let_def json_def)

lemma recommendations_handler_failed:
  assumes "passes_validation env (age b)" and "passes_validation env (height b)"
    and "passes_validation env (weight b)"
    and "axios_post (PYTHON_API_URL @ ''/api/recommend'')
           \<lparr>p_age = parseFloat env (age b), p_height = parseFloat env (height b),
            p_weight = parseFloat env (weight b)\<rparr> = Rejected error"
  shows "reply (recommendations_handler env axios_post b) = on_post_error env error"
  using assms by (simp add: recommendations_handler_def passes_validation_def Let_def)

lemma on_post_error_unavailable:
  assumes "err_code error = Some ''ECONNREFUSED'' \<or> err_code error = Some ''ENOTFOUND''"
  shows "on_post_error env error
     = Some \<lparr>status = 503,
             body = ErrorJson ''Python server is not available. Please try again later.''\<rparr>"
  using assms by (auto simp: on_post_error_def errorResponse_def)

lemma on_post_error_upstream:
  assumes "err_code error \<noteq> Some ''ECONNREFUSED''" and "err_code error \<noteq> Some ''ENOTFOUND''"
    and "err_response error = Some r" and "upstream_error r = Read e"
  shows "on_post_error env error
     = Some \<lparr>status = upstream_status r,
             body = ErrorJson (''Python server error: ''
                      @ (if truthy e then ToString env e else ''Unknown error''))\<rparr>"
  using assms by (simp add: on_post_error_def errorResponse_def js_or_def)

lemma on_post_error_internal:
  assumes "err_code error \<noteq> Some ''ECONNREFUSED''" and "err_code error \<noteq> Some ''ENOTFOUND''"
    and "err_response error = None"
  shows "on_post_error env error
     = Some \<lparr>status = 500, body = ErrorJson ''Failed to process request with Python server''\<rparr>"
  using assms by (simp add: on_post_error_def errorResponse_def)

text \<open>
  C5. A failed outbound call is meant to be answered in one of three ways: 503 for the
  codes \<open>ECONNREFUSED\<close> and \<open>ENOTFOUND\<close>, the upstream's status with a prefixed message
  where the upstream answered, and 500 otherwise. Where the upstream answered with an
  error status and the JSON body \<open>null\<close>, the read \<open>error.response.data.error\<close> throws
  inside the \<open>catch\<close> block and the request gets no response at all, after the one
  outbound call.
\<close>

theorem recommendations_null_upstream_body_unanswered:
  "(recommendations_handler example_env (\<lambda>url p. Rejected example_null_body_error)
      (example_profile (Num (Fin 25)) (Num (Fin 170)) (Num (Fin 65)))
        :: (string, unit) outcome)
     = \<lparr>reply = None,
        calls = [HttpPost ''https://backendpy-production.up.railway.app//api/recommend''
                   \<lparr>p_age = Fin 25, p_height = Fin 170, p_weight = Fin 65\<rparr>]\<rparr>"
  by (simp add: recommendations_handler_def example_profile_def isNaN_def Let_def
      on_post_error_def example_null_body_error_def PYTHON_API_URL_def)

theorem recommendations_null_upstream_body_unanswered_witness:
  "reply (recommendations_handler example_env (\<lambda>url p. Rejected example_null_body_error)
      (example_profile (Num (Fin 25)) (Num (Fin 170)) (Num (Fin 65)))
        :: (string, unit) outcome) = None
   \<and> length (calls (recommendations_handler example_env
        (\<lambda>url p. Rejected example_null_body_error)
        (example_profile (Num (Fin 25)) (Num (Fin 170)) (Num (Fin 65)))
          :: (string, unit) outcome)) = 1"
  using recommendations_null_upstream_body_unanswered by simp

section \<open>Properties of GET /api/health\<close>

text \<open>
  C8. Whatever the outbound health call does, \<open>GET /api/health\<close> answers with status 200
  and \<open>expressServer: 'ok'\<close>, after one call with the 5000 ms timeout. When the call fails,
  the body is \<open>{expressServer: 'ok', pythonServer: 'offline', error}\<close> with the message of
  the failure.
\<close>

theorem health_never_fails:
  "(\<exists>pythonServer problem.
      (health_handler env axios_get :: ('a, 'd) outcome)
        = \<lparr>reply = Some \<lparr>status = 200, body = HealthJson ''ok'' pythonServer problem\<rparr>,
           calls = [HttpGet (PYTHON_API_URL @ ''/api/health'') 5000]\<rparr>)
   \<and> (axios_get (PYTHON_API_URL @ ''/api/health'') 5000 = Rejected error
      \<longrightarrow> reply (health_handler env axios_get :: ('a, 'd) outcome)
           = Some \<lparr>status = 200,
                   body = HealthJson ''ok'' (Str ''offline'') (Some (err_message error))\<rparr>)"
proof (intro conjI impI)
  show "\<exists>pythonServer problem.
      (health_handler env axios_get :: ('a, 'd) outcome)
        = \<lparr>reply = Some \<lparr>status = 200, body = HealthJson ''ok'' pythonServer problem\<rparr>,
           calls = [HttpGet (PYTHON_API_URL @ ''/api/health'') 5000]\<rparr>"
  proof (cases "axios_get (PYTHON_API_URL @ ''/api/health'') 5000")
    case (Resolved data)
    then show ?thesis
      by (cases data) (simp_all add: health_handler_def json_def Let_def)
  next
    case (Rejected e)
    then show ?thesis
      by (simp add: health_handler_def json_def Let_def)
  qed
next
  assume "axios_get (PYTHON_API_URL @ ''/api/health'') 5000 = Rejected error"
  then show "reply (health_handler env axios_get :: ('a, 'd) outcome)
           = Some \<lparr>status = 200,
                   body = HealthJson ''ok'' (Str ''offline'') (Some (err_message error))\<rparr>"
    by (simp add: health_handler_def json_def Let_def)
qed

theorem health_never_fails_witness:
  "reply (health_handler example_env (\<lambda>url timeout. Rejected example_refused_error)
            :: (string, unit) outcome)
     = Some \<lparr>status = 200,
             body = HealthJson ''ok'' (Str ''offline'') (Some ''connect ECONNREFUSED'')\<rparr>"
proof -
  have "(\<lambda>url timeout. Rejected example_refused_error)
      (PYTHON_API_URL @ ''/api/health'') (5000::nat) = Rejected example_refused_error"
    by simp
  with health_never_fails [where ?'a = string and ?'d = unit, of example_env
      "\<lambda>url timeout. Rejected example_refused_error" example_refused_error]
  show ?thesis by (simp add: example_refused_error_def)
qed

end
